theory Spec2Isabelle
  imports Main "HOL-Library.Sublist" "HOL-Library.Word"
begin

section \<open>The TELOS MCP server (telos\_mcp\_server.py)\<close>

text \<open>
  The server has one context loader, \<open>load_telos_context\<close>, and one request handler,
  \<open>mcp_endpoint\<close>. Both are embedded below as functions of a \<open>world\<close>: the process
  environment, the HTTP client, the filesystem, the two library decoders and the limit of
  digits of the interpreter, none of which is in the source file. A Python \<open>str\<close> is a
  \<open>string\<close>, one \<open>char\<close> for each character.
\<close>

subsection \<open>Values decoded from JSON\<close>

text \<open>
  \<open>Any\<close> values of the request and the response are what a JSON body decodes to.
  \<open>JNull\<close> is Python's \<open>None\<close>. A float is carried by its \<open>repr\<close>, which identifies it;
  the program does no arithmetic. A \<open>dict\<close> is an association list in insertion order.
\<close>

datatype json =
    JNull
  | JBool bool
  | JInt int
  | JFloat string
  | JString string
  | JArray "json list"
  | JObject "(string \<times> json) list"

text \<open>
  Exception classes. The source tells two things about an exception: whether it is a
  \<open>FileNotFoundError\<close>, and whether it is an instance of \<open>Exception\<close>, which
  \<open>except Exception\<close> catches. \<open>asyncio.CancelledError\<close>, raised at an \<open>await\<close> when the
  running coroutine is cancelled, and \<open>KeyboardInterrupt\<close> derive from \<open>BaseException\<close> only.
\<close>

datatype exc =
    FileNotFoundError
  | PermissionError
  | IsADirectoryError
  | UnicodeDecodeError
  | OSError
  | KeyError
  | TypeError
  | AttributeError
  | ValueError
  | BinasciiError
  | JSONDecodeError
  | HTTPError
  | CancelledError
  | KeyboardInterrupt

text \<open>\<open>isinstance(e, Exception)\<close>.\<close>

fun is_Exception :: "exc \<Rightarrow> bool" where
  "is_Exception CancelledError = False"
| "is_Exception KeyboardInterrupt = False"
| "is_Exception e = True"

text \<open>\<open>d.get(k, default)\<close> on a \<open>dict\<close>.\<close>

definition dict_get :: "(string \<times> json) list \<Rightarrow> string \<Rightarrow> json \<Rightarrow> json" where
  "dict_get d k dflt = (case map_of d k of None \<Rightarrow> dflt | Some v \<Rightarrow> v)"

text \<open>
  \<open>v.get(k, default)\<close> on a value that need not be a \<open>dict\<close>: only a \<open>dict\<close> has the
  attribute \<open>get\<close>.
\<close>

fun py_get :: "json \<Rightarrow> string \<Rightarrow> json \<Rightarrow> exc + json" where
  "py_get (JObject d) k dflt = Inr (dict_get d k dflt)"
| "py_get v k dflt = Inl AttributeError"

text \<open>\<open>v[k]\<close> with a \<open>str\<close> key \<open>k\<close>.\<close>

fun subscript :: "json \<Rightarrow> string \<Rightarrow> exc + json" where
  "subscript (JObject d) k = (case map_of d k of None \<Rightarrow> Inl KeyError | Some v \<Rightarrow> Inr v)"
| "subscript v k = Inl TypeError"

subsection \<open>String conversion of values\<close>

text \<open>
  A replacement field \<open>{content}\<close> of an f-string formats the value with an empty format
  specification, which is \<open>str(content)\<close> for every value decoded from JSON: a \<open>str\<close> is
  inserted as it is, any other value by its \<open>repr\<close>.
\<close>

fun string_of_nat :: "nat \<Rightarrow> string" where
  "string_of_nat n =
     (if n < 10 then [char_of (48 + n)]
      else string_of_nat (n div 10) @ [char_of (48 + n mod 10)])"

declare string_of_nat.simps [simp del]

definition string_of_int :: "int \<Rightarrow> string" where
  "string_of_int i = (if i < 0 then ''-'' @ string_of_nat (nat (- i)) else string_of_nat (nat i))"

definition hex_digit :: "nat \<Rightarrow> char" where
  "hex_digit n = ''0123456789abcdef'' ! (n mod 16)"

text \<open>\<open>str.isprintable\<close> on the characters below 256.\<close>

definition printable :: "char \<Rightarrow> bool" where
  "printable c = (let n = (of_char c :: nat) in (32 \<le> n \<and> n < 127) \<or> (161 \<le> n \<and> n \<noteq> 173))"

definition repr_char :: "char \<Rightarrow> char \<Rightarrow> string" where
  "repr_char quote c =
     (if c = quote \<or> c = CHR 0x5C then [CHR 0x5C, c]
      else if c = CHR 0x09 then [CHR 0x5C, CHR ''t'']
      else if c = CHR 0x0A then [CHR 0x5C, CHR ''n'']
      else if c = CHR 0x0D then [CHR 0x5C, CHR ''r'']
      else if \<not> printable c then
        [CHR 0x5C, CHR ''x'', hex_digit (of_char c div 16), hex_digit (of_char c mod 16)]
      else [c])"

definition repr_str :: "string \<Rightarrow> string" where
  "repr_str s =
     (let quote = (if CHR 0x27 \<in> set s \<and> CHR 0x22 \<notin> set s then CHR 0x22 else CHR 0x27)
      in [quote] @ concat (map (repr_char quote) s) @ [quote])"

fun join :: "string \<Rightarrow> string list \<Rightarrow> string" where
  "join sep [] = []"
| "join sep [x] = x"
| "join sep (x # y # ys) = x @ sep @ join sep (y # ys)"

primrec py_repr :: "json \<Rightarrow> string" where
  "py_repr JNull = ''None''"
| "py_repr (JBool b) = (if b then ''True'' else ''False'')"
| "py_repr (JInt i) = string_of_int i"
| "py_repr (JFloat r) = r"
| "py_repr (JString s) = repr_str s"
| "py_repr (JArray xs) = ''['' @ join '', '' (map py_repr xs) @ '']''"
| "py_repr (JObject kvs) =
     ''{'' @ join '', '' (map (\<lambda>kv. repr_str (fst kv) @ '': '' @ snd kv)
                              (map (map_prod id py_repr) kvs)) @ ''}''"

definition py_str :: "json \<Rightarrow> string" where
  "py_str v = (case v of JString s \<Rightarrow> s | _ \<Rightarrow> py_repr v)"

text \<open>
  Converting an \<open>int\<close> to decimal raises \<open>ValueError\<close> where the \<open>int\<close> has more digits than
  \<open>sys.get_int_max_str_digits()\<close>, which is 4300 unless configured, and 0 where there is
  no limit (as before Python 3.11). \<open>int_digits_exceed n v\<close> says that some \<open>int\<close> in \<open>v\<close> has
  more than \<open>n\<close> digits, and \<open>str_raises limit v\<close> that \<open>str(v)\<close> raises under the limit.
\<close>

primrec int_digits_exceed :: "nat \<Rightarrow> json \<Rightarrow> bool" where
  "int_digits_exceed n JNull = False"
| "int_digits_exceed n (JBool b) = False"
| "int_digits_exceed n (JInt i) = (n < length (string_of_nat (nat \<bar>i\<bar>)))"
| "int_digits_exceed n (JFloat r) = False"
| "int_digits_exceed n (JString s) = False"
| "int_digits_exceed n (JArray xs) = (True \<in> set (map (int_digits_exceed n) xs))"
| "int_digits_exceed n (JObject kvs) =
     (True \<in> set (map snd (map (map_prod id (int_digits_exceed n)) kvs)))"

definition str_raises :: "nat \<Rightarrow> json \<Rightarrow> bool" where
  "str_raises limit v = (0 < limit \<and> int_digits_exceed limit v)"

subsection \<open>The request and the response\<close>

record MCPRequest =
  "method" :: string
  params :: "(string \<times> json) list"

text \<open>Both fields of the response default to \<open>None\<close>.\<close>

record MCPResponse =
  result :: "json option"
  error :: "(string \<times> json) list option"

subsection \<open>The world outside the source file\<close>

type_synonym bytes = "8 word list"

text \<open>What \<open>client.get\<close> returns: the status code and the outcome of \<open>response.json()\<close>.\<close>

record http_response =
  status_code :: int
  response_json :: "exc + json"

text \<open>
  \<open>getenv\<close> is \<open>os.getenv\<close>. \<open>client_enter\<close> is the exception, if any, of entering
  \<open>async with httpx.AsyncClient() as client\<close> (creating the client and its \<open>__aenter__\<close>),
  and \<open>client_exit\<close> the exception, if any, of leaving that block (its \<open>__aexit__\<close>, which
  closes the client). \<open>client_get url headers\<close> is the outcome of
  \<open>await client.get(url, headers=headers)\<close>; \<open>b64decode\<close> is \<open>base64.b64decode\<close> and
  \<open>decode_utf8\<close> is \<open>bytes.decode("utf-8")\<close>; \<open>open_read path\<close> is the outcome of opening
  the file at \<open>path\<close> for reading as text and reading all of it; \<open>max_str_digits\<close> is
  \<open>sys.get_int_max_str_digits()\<close>.
\<close>

record world =
  getenv :: "string \<Rightarrow> string option"
  client_enter :: "exc option"
  client_get :: "string \<Rightarrow> (string \<times> string) list \<Rightarrow> exc + http_response"
  client_exit :: "exc option"
  b64decode :: "json \<Rightarrow> exc + bytes"
  decode_utf8 :: "bytes \<Rightarrow> exc + string"
  open_read :: "string \<Rightarrow> exc + string"
  max_str_digits :: nat

text \<open>
  The calls a run makes to the outside, in order. \<open>PrintError e\<close> is the call
  \<open>print(f"Error loading from GitHub: {e}")\<close>.
\<close>

datatype io =
    ClientGet string "(string \<times> string) list"
  | OpenRead string
  | PrintError exc

subsection \<open>load\_telos\_context\<close>

text \<open>\<open>os.getenv("TELOS_REPO", "your-username/personal-context")\<close>.\<close>

definition telos_repo :: "world \<Rightarrow> string" where
  "telos_repo w =
     (case getenv w ''TELOS_REPO'' of
        None \<Rightarrow> ''your-username/personal-context''
      | Some r \<Rightarrow> r)"

definition telos_url :: "string \<Rightarrow> string" where
  "telos_url repo = ''https://api.github.com/repos/'' @ repo @ ''/contents/telos.md''"

definition auth_headers :: "string \<Rightarrow> (string \<times> string) list" where
  "auth_headers github_token = [(''Authorization'', ''token '' @ github_token)]"

text \<open>
  The statements under \<open>if response.status_code == 200\<close>: the first exception ends them.
\<close>

definition decode_content :: "world \<Rightarrow> http_response \<Rightarrow> exc + string" where
  "decode_content w response =
     (case response_json response of
        Inl e \<Rightarrow> Inl e
      | Inr data \<Rightarrow>
          (case subscript data ''content'' of
             Inl e \<Rightarrow> Inl e
           | Inr c \<Rightarrow>
               (case b64decode w c of
                  Inl e \<Rightarrow> Inl e
                | Inr raw \<Rightarrow> decode_utf8 w raw)))"

text \<open>
  The body of the \<open>try\<close>: \<open>Inr (Some content)\<close> is \<open>return content\<close>, \<open>Inr None\<close> is
  leaving the \<open>try\<close> with nothing returned (the status is not 200), \<open>Inl e\<close> is an
  exception.
\<close>

definition try_fetch :: "world \<Rightarrow> string \<Rightarrow> (string \<times> string) list \<Rightarrow> exc + string option" where
  "try_fetch w url headers =
     (case client_get w url headers of
        Inl e \<Rightarrow> Inl e
      | Inr response \<Rightarrow>
          if status_code response = 200 then
            (case decode_content w response of
               Inl e \<Rightarrow> Inl e
             | Inr content \<Rightarrow> Inr (Some content))
          else Inr None)"

definition local_path :: string where
  "local_path = ''/app/context/telos.md''"

text \<open>The fallback to the local file: only \<open>FileNotFoundError\<close> is handled.\<close>

definition local_file :: "world \<Rightarrow> io list \<times> (exc + string)" where
  "local_file w =
     ([OpenRead local_path],
      (case open_read w local_path of
         Inr s \<Rightarrow> Inr s
       | Inl e \<Rightarrow>
           if e = FileNotFoundError then
             Inr ''# TELOS Context\<newline>No personal context loaded. Please set up your TELOS file.''
           else Inl e))"

definition after :: "io list \<Rightarrow> io list \<times> 'a \<Rightarrow> io list \<times> 'a" where
  "after t r = (t @ fst r, snd r)"

text \<open>
  \<open>if github_token:\<close> is false for an unset variable and for an empty one.

  The \<open>try\<close> stands inside the \<open>async with\<close>, so that an exception of entering or of leaving
  the block is not handled: it leaves the loader. The block is left after \<open>return content\<close>,
  after the \<open>try\<close> statement ends (the status was not 200, or \<open>except Exception\<close> caught
  the exception and printed it), and when an exception that is not an \<open>Exception\<close> passes
  through; an exception of leaving takes the place of what was returned or passing.
\<close>

definition load_telos_context :: "world \<Rightarrow> io list \<times> (exc + string)" where
  "load_telos_context w =
     (case getenv w ''GITHUB_TOKEN'' of
        None \<Rightarrow> local_file w
      | Some github_token \<Rightarrow>
          if github_token = [] then local_file w
          else
            (case client_enter w of
               Some e \<Rightarrow> ([], Inl e)
             | None \<Rightarrow>
                 (let url = telos_url (telos_repo w);
                      headers = auth_headers github_token
                  in case try_fetch w url headers of
                       Inr (Some content) \<Rightarrow>
                         ([ClientGet url headers],
                          (case client_exit w of Some e' \<Rightarrow> Inl e' | None \<Rightarrow> Inr content))
                     | Inr None \<Rightarrow>
                         (case client_exit w of
                            Some e' \<Rightarrow> ([ClientGet url headers], Inl e')
                          | None \<Rightarrow> after [ClientGet url headers] (local_file w))
                     | Inl e \<Rightarrow>
                         if is_Exception e then
                           (case client_exit w of
                              Some e' \<Rightarrow> ([ClientGet url headers, PrintError e], Inl e')
                            | None \<Rightarrow>
                                after [ClientGet url headers, PrintError e] (local_file w))
                         else
                           ([ClientGet url headers],
                            (case client_exit w of Some e' \<Rightarrow> Inl e' | None \<Rightarrow> Inl e)))))"

subsection \<open>mcp\_endpoint\<close>

definition load_telos_context_tool :: json where
  "load_telos_context_tool =
     JObject
      [(''name'', JString ''load_telos_context''),
       (''description'', JString ''Load personal TELOS context for decision filtering''),
       (''inputSchema'',
          JObject
           [(''type'', JString ''object''),
            (''properties'',
               JObject
                [(''request'',
                    JObject
                     [(''type'', JString ''string''),
                      (''description'',
                         JString ''The request to filter through personal context'')])])])]"

definition apply_telos_filter_tool :: json where
  "apply_telos_filter_tool =
     JObject
      [(''name'', JString ''apply_telos_filter''),
       (''description'',
          JString ''Apply TELOS context to evaluate alignment with personal mission''),
       (''inputSchema'',
          JObject
           [(''type'', JString ''object''),
            (''properties'',
               JObject
                [(''content'',
                    JObject
                     [(''type'', JString ''string''),
                      (''description'', JString ''Content to evaluate'')]),
                 (''decision_type'',
                    JObject
                     [(''type'', JString ''string''),
                      (''description'', JString ''Type of decision'')])])])]"

text \<open>The f-string of the filter, with its line breaks and indentation.\<close>

definition filtered_response :: "string \<Rightarrow> json \<Rightarrow> string" where
  "filtered_response context content =
     ''\<newline>            TELOS-Filtered Analysis:\<newline>            \<newline>            Personal Context Applied: ''
     @ take 200 context
     @ ''...\<newline>            \<newline>            Content Analysis: ''
     @ py_str content
     @ ''\<newline>            \<newline>            Alignment Assessment: [This would contain AI-generated alignment analysis]\<newline>            ''"

text \<open>
  The handler returns \<open>Inr (Some r)\<close> for \<open>return MCPResponse(...)\<close>, \<open>Inr None\<close> where it
  reaches its end with no \<open>return\<close> (Python's \<open>None\<close>), and \<open>Inl e\<close> where an exception
  leaves it: one of the loader, the \<open>AttributeError\<close> of \<open>arguments.get\<close> on a value that
  is no \<open>dict\<close>, or the \<open>ValueError\<close> of the f-string on an \<open>int\<close> beyond the limit.
\<close>

definition mcp_endpoint :: "world \<Rightarrow> MCPRequest \<Rightarrow> io list \<times> (exc + MCPResponse option)" where
  "mcp_endpoint w request =
     (if method request = ''tools/list'' then
        ([], Inr (Some \<lparr>result = Some (JObject [(''tools'',
                 JArray [load_telos_context_tool, apply_telos_filter_tool])]),
               error = None\<rparr>))
      else if method request = ''tools/call'' then
        (let tool_name = dict_get (params request) ''name'' JNull;
             arguments = dict_get (params request) ''arguments'' (JObject [])
         in if tool_name = JString ''load_telos_context'' then
              (case load_telos_context w of
                 (t, Inl e) \<Rightarrow> (t, Inl e)
               | (t, Inr context) \<Rightarrow>
                   (t, Inr (Some \<lparr>result = Some (JObject [(''content'', JString context)]),
                                  error = None\<rparr>)))
            else if tool_name = JString ''apply_telos_filter'' then
              (case load_telos_context w of
                 (t, Inl e) \<Rightarrow> (t, Inl e)
               | (t, Inr context) \<Rightarrow>
                   (case py_get arguments ''content'' (JString '''') of
                      Inl e \<Rightarrow> (t, Inl e)
                    | Inr content \<Rightarrow>
                        if str_raises (max_str_digits w) content then (t, Inl ValueError)
                        else
                          (t, Inr (Some \<lparr>result = Some (JObject [(''filtered_content'',
                                    JString (filtered_response context content))]),
                                  error = None\<rparr>))))
            else ([], Inr None))
      else
        ([], Inr (Some \<lparr>result = None,
               error = Some [(''code'', JInt (- 32601)),
                             (''message'', JString (''Method '' @ method request @ '' not found''))]\<rparr>)))"

subsection \<open>Concrete worlds\<close>

text \<open>
  Nothing is configured and nothing is reachable: no variable is set, every request
  fails, no file exists. The client can be created and closed, and the limit of digits
  is the default.
\<close>

definition world_offline :: world where
  "world_offline =
     \<lparr>getenv = (\<lambda>name. None),
      client_enter = None,
      client_get = (\<lambda>url headers. Inl HTTPError),
      client_exit = None,
      b64decode = (\<lambda>v. Inl BinasciiError),
      decode_utf8 = (\<lambda>raw. Inl UnicodeDecodeError),
      open_read = (\<lambda>path. Inl FileNotFoundError),
      max_str_digits = 4300\<rparr>"

text \<open>The local file exists and may not be read.\<close>

definition world_unreadable_file :: world where
  "world_unreadable_file = world_offline\<lparr>open_read := (\<lambda>path. Inl PermissionError)\<rparr>"

text \<open>No credential; the local file holds two lines.\<close>

definition world_local_file :: world where
  "world_local_file =
     world_offline\<lparr>open_read :=
       (\<lambda>path. if path = ''/app/context/telos.md'' then Inr ''# Mission\<newline>Ship it.''
              else Inl FileNotFoundError)\<rparr>"

text \<open>A credential is set, every request fails, the local file is there.\<close>

definition world_network_down :: world where
  "world_network_down =
     world_local_file\<lparr>getenv :=
       (\<lambda>name. if name = ''GITHUB_TOKEN'' then Some ''ghp_token'' else None)\<rparr>"

text \<open>The remote answers 404.\<close>

definition world_not_found :: world where
  "world_not_found =
     world_network_down\<lparr>client_get :=
       (\<lambda>url headers. Inr \<lparr>status_code = 404,
          response_json = Inr (JObject [(''message'', JString ''Not Found'')])\<rparr>)\<rparr>"

text \<open>The remote answers 200 with a JSON list, which has no \<open>"content"\<close>.\<close>

definition world_bad_payload :: world where
  "world_bad_payload =
     world_network_down\<lparr>client_get :=
       (\<lambda>url headers. Inr \<lparr>status_code = 200, response_json = Inr (JArray [])\<rparr>)\<rparr>"

text \<open>
  Every request fails, and the local file exists and opens, but its bytes are not text in
  the encoding of the locale: \<open>f.read()\<close> raises \<open>UnicodeDecodeError\<close>.
\<close>

definition world_network_down_undecodable :: world where
  "world_network_down_undecodable =
     world_network_down\<lparr>open_read := (\<lambda>path. Inl UnicodeDecodeError)\<rparr>"

text \<open>
  The running coroutine is cancelled while the loader waits for the answer; the local
  file is there.
\<close>

definition world_cancelled :: world where
  "world_cancelled =
     world_network_down\<lparr>client_get := (\<lambda>url headers. Inl CancelledError)\<rparr>"

text \<open>Creating the client fails; the local file is there.\<close>

definition world_client_fails :: world where
  "world_client_fails = world_network_down\<lparr>client_enter := Some ValueError\<rparr>"

text \<open>The remote serves the file: \<open>aGk=\<close> is the base64 of the two bytes of \<open>hi\<close>.\<close>

definition world_github :: world where
  "world_github =
     world_network_down\<lparr>
       client_get :=
         (\<lambda>url headers.
            if url = ''https://api.github.com/repos/your-username/personal-context/contents/telos.md''
               \<and> headers = [(''Authorization'', ''token ghp_token'')]
            then Inr \<lparr>status_code = 200,
                      response_json = Inr (JObject [(''content'', JString ''aGk='')])\<rparr>
            else Inl HTTPError),
       b64decode := (\<lambda>v. if v = JString ''aGk='' then Inr [104, 105] else Inl BinasciiError),
       decode_utf8 := (\<lambda>raw. if raw = [104, 105] then Inr ''hi'' else Inl UnicodeDecodeError)\<rparr>"

section \<open>Properties\<close>

lemmas worlds =
  world_offline_def world_unreadable_file_def world_local_file_def world_network_down_def
  world_not_found_def world_bad_payload_def world_network_down_undecodable_def world_github_def
  world_cancelled_def world_client_fails_def

lemmas load_defs =
  load_telos_context_def local_file_def try_fetch_def decode_content_def telos_repo_def
  telos_url_def auth_headers_def local_path_def after_def

subsection \<open>The loader\<close>

lemma snd_after [simp]: "snd (after t r) = snd r"
  by (simp add: after_def)

lemma fst_after [simp]: "fst (after t r) = t @ fst r"
  by (simp add: after_def)

text \<open>With a credential and a remote that serves the file, the local file is not opened.\<close>

lemma load_from_github:
  "load_telos_context world_github =
     ([ClientGet ''https://api.github.com/repos/your-username/personal-context/contents/telos.md''
         [(''Authorization'', ''token ghp_token'')]], Inr ''hi'')"
  by (simp add: load_defs worlds)

text \<open>
  A cancellation at the \<open>await\<close> is not an \<open>Exception\<close>: it leaves the loader, though the
  local file could be read. So does an exception of creating the client.
\<close>

lemma load_cancelled:
  "snd (load_telos_context world_cancelled) = Inl CancelledError"
  by (simp add: load_defs worlds)

lemma load_client_creation_fails:
  "snd (load_telos_context world_client_fails) = Inl ValueError"
  by (simp add: load_defs worlds)

lemma load_without_credential:
  "getenv w ''GITHUB_TOKEN'' = None \<or> getenv w ''GITHUB_TOKEN'' = Some [] \<Longrightarrow>
   load_telos_context w = local_file w"
  by (auto simp: load_telos_context_def)













text \<open>
  Claim C5. With no credential (the variable unset or empty) and no local file, the loader
  returns the constant placeholder, and the tool \<open>load_telos_context\<close> answers with it
  under \<open>content\<close> and with no error.
\<close>

theorem placeholder_without_credential_and_file:
  assumes "getenv w ''GITHUB_TOKEN'' = None \<or> getenv w ''GITHUB_TOKEN'' = Some ''''"
    and "open_read w local_path = Inl FileNotFoundError"
    and "method request = ''tools/call''"
    and "dict_get (params request) ''name'' JNull = JString ''load_telos_context''"
  shows "snd (load_telos_context w) =
           Inr ''# TELOS Context\<newline>No personal context loaded. Please set up your TELOS file.''
         \<and> snd (mcp_endpoint w request) =
           Inr (Some \<lparr>result = Some (JObject [(''content'',
                  JString ''# TELOS Context\<newline>No personal context loaded. Please set up your TELOS file.'')]),
                error = None\<rparr>)"
proof -
  have "load_telos_context w = ([OpenRead local_path],
      Inr ''# TELOS Context\<newline>No personal context loaded. Please set up your TELOS file.'')"
    using assms(1,2) by (simp add: load_without_credential local_file_def)
  then show ?thesis
    using assms(3,4) by (simp add: mcp_endpoint_def)
qed

theorem placeholder_without_credential_and_file_witness:
  "snd (mcp_endpoint world_offline
     \<lparr>method = ''tools/call'',
      params = [(''name'', JString ''load_telos_context''), (''arguments'', JObject [])]\<rparr>) =
   Inr (Some \<lparr>result = Some (JObject [(''content'',
          JString ''# TELOS Context\<newline>No personal context loaded. Please set up your TELOS file.'')]),
        error = None\<rparr>)"
  using placeholder_without_credential_and_file [of world_offline
    "\<lparr>method = ''tools/call'',
      params = [(''name'', JString ''load_telos_context''), (''arguments'', JObject [])]\<rparr>"]
  by (simp add: world_offline_def dict_get_def)

subsection \<open>The handler\<close>

text \<open>Every envelope the handler returns has one of its two fields set, and one only.\<close>

lemma envelope_exactly_one:
  "snd (mcp_endpoint w request) = Inr (Some r) \<Longrightarrow> (result r = None) \<noteq> (error r = None)"
  by (auto simp: mcp_endpoint_def Let_def split: if_splits prod.splits sum.splits)

text \<open>
  Claim C2. The claim says that for every request the envelope has exactly one of
  \<open>result\<close> and \<open>error\<close> set. For a \<open>tools/call\<close> that names a tool the handler does not
  know, the handler reaches its end with no \<open>return\<close>: there is no envelope, and neither
  field is set.
\<close>

theorem unknown_tool_no_envelope:
  "snd (mcp_endpoint world_offline
     \<lparr>method = ''tools/call'', params = [(''name'', JString ''summarize'')]\<rparr>) = Inr None"
  by (simp add: mcp_endpoint_def dict_get_def)

text \<open>
  The branch for \<open>tools/call\<close> has no \<open>else\<close>: for a name that is neither of the two tools
  the handler ends with no \<open>return\<close>, and it has called nothing outside.
\<close>

lemma unknown_tool_falls_through:
  assumes "method request = ''tools/call''"
    and "dict_get (params request) ''name'' JNull \<noteq> JString ''load_telos_context''"
    and "dict_get (params request) ''name'' JNull \<noteq> JString ''apply_telos_filter''"
  shows "mcp_endpoint w request = ([], Inr None)"
  using assms by (simp add: mcp_endpoint_def Let_def)

text \<open>
  Claim C3. The claim says that for a \<open>tools/call\<close> whose \<open>name\<close> is neither
  \<open>load_telos_context\<close> nor \<open>apply_telos_filter\<close> the handler returns an empty envelope,
  one with neither \<open>result\<close> nor \<open>error\<close> set, which is \<open>MCPResponse()\<close>. Every other branch
  returns an envelope; this one, by the missing \<open>else\<close>, returns \<open>None\<close> and no envelope.
\<close>

theorem unknown_tool_not_empty_envelope:
  "mcp_endpoint world_github
     \<lparr>method = ''tools/call'',
      params = [(''name'', JString ''delete_context''), (''arguments'', JObject [])]\<rparr>
   = ([], Inr None)
   \<and> snd (mcp_endpoint world_github
     \<lparr>method = ''tools/call'',
      params = [(''name'', JString ''delete_context''), (''arguments'', JObject [])]\<rparr>)
   \<noteq> Inr (Some \<lparr>result = None, error = None\<rparr>)"
  by (simp add: mcp_endpoint_def dict_get_def)

text \<open>
  Claim C4. For every request whose method \<open>M\<close> is neither \<open>tools/list\<close> nor \<open>tools/call\<close>,
  the handler returns an envelope with no result and with the error of code \<open>-32601\<close> and
  message \<open>Method M not found\<close>, which contains \<open>M\<close>.
\<close>

theorem unknown_method_error:
  assumes "method request \<noteq> ''tools/list''" and "method request \<noteq> ''tools/call''"
  shows "mcp_endpoint w request =
           ([], Inr (Some \<lparr>result = None,
                  error = Some [(''code'', JInt (- 32601)),
                    (''message'', JString (''Method '' @ method request @ '' not found''))]\<rparr>))
         \<and> sublist (method request) (''Method '' @ method request @ '' not found'')"
proof
  show "mcp_endpoint w request =
           ([], Inr (Some \<lparr>result = None,
                  error = Some [(''code'', JInt (- 32601)),
                    (''message'', JString (''Method '' @ method request @ '' not found''))]\<rparr>))"
    using assms by (simp add: mcp_endpoint_def)
  show "sublist (method request) (''Method '' @ method request @ '' not found'')"
    by (rule sublist_appendI)
qed

theorem unknown_method_error_witness:
  "mcp_endpoint world_offline \<lparr>method = ''unknown/x'', params = []\<rparr> =
     ([], Inr (Some \<lparr>result = None,
            error = Some [(''code'', JInt (- 32601)),
              (''message'', JString ''Method unknown/x not found'')]\<rparr>))"
  using unknown_method_error [of "\<lparr>method = ''unknown/x'', params = []\<rparr>" world_offline]
  by simp

text \<open>
  Claim C8. For every request with method \<open>tools/list\<close>, whatever its \<open>params\<close>, the handler
  returns an envelope with no error whose result lists two tool descriptors, named
  \<open>load_telos_context\<close> and \<open>apply_telos_filter\<close>. The answer is one constant in every
  world, and the handler calls nothing outside.
\<close>

theorem tools_list_static:
  assumes "method request = ''tools/list''"
  shows "mcp_endpoint w request =
           ([], Inr (Some \<lparr>result = Some (JObject [(''tools'',
                    JArray [load_telos_context_tool, apply_telos_filter_tool])]),
                  error = None\<rparr>))
         \<and> subscript load_telos_context_tool ''name'' = Inr (JString ''load_telos_context'')
         \<and> subscript apply_telos_filter_tool ''name'' = Inr (JString ''apply_telos_filter'')"
  using assms
  by (simp add: mcp_endpoint_def load_telos_context_tool_def apply_telos_filter_tool_def)

theorem tools_list_static_witness:
  "mcp_endpoint world_github \<lparr>method = ''tools/list'', params = [(''cursor'', JInt 7)]\<rparr> =
     mcp_endpoint world_unreadable_file \<lparr>method = ''tools/list'', params = []\<rparr>
   \<and> fst (mcp_endpoint world_github \<lparr>method = ''tools/list'', params = [(''cursor'', JInt 7)]\<rparr>) = []"
  using
    tools_list_static [of "\<lparr>method = ''tools/list'', params = [(''cursor'', JInt 7)]\<rparr>" world_github]
    tools_list_static [of "\<lparr>method = ''tools/list'', params = []\<rparr>" world_unreadable_file]
  by simp

text \<open>
  Claim C9. For every \<open>tools/call\<close> whose \<open>params\<close> has no key \<open>name\<close>, the empty \<open>params\<close>
  among them, the name is read as \<open>None\<close>, no exception leaves the handler, and the handler
  does what it does for any name it does not know.
\<close>

theorem missing_tool_name:
  assumes "method request = ''tools/call''"
    and "map_of (params request) ''name'' = None"
    and "method other = ''tools/call''"
    and "dict_get (params other) ''name'' JNull \<noteq> JString ''load_telos_context''"
    and "dict_get (params other) ''name'' JNull \<noteq> JString ''apply_telos_filter''"
  shows "dict_get (params request) ''name'' JNull = JNull
         \<and> mcp_endpoint w request = ([], Inr None)
         \<and> mcp_endpoint w request = mcp_endpoint w other"
  using assms by (simp add: mcp_endpoint_def dict_get_def Let_def)

theorem missing_tool_name_witness:
  "mcp_endpoint world_unreadable_file \<lparr>method = ''tools/call'', params = []\<rparr> = ([], Inr None)
   \<and> mcp_endpoint world_unreadable_file \<lparr>method = ''tools/call'', params = []\<rparr> =
     mcp_endpoint world_unreadable_file
       \<lparr>method = ''tools/call'', params = [(''name'', JString ''no_such_tool'')]\<rparr>"
  using missing_tool_name [of "\<lparr>method = ''tools/call'', params = []\<rparr>"
    "\<lparr>method = ''tools/call'', params = [(''name'', JString ''no_such_tool'')]\<rparr>"
    world_unreadable_file]
  by (auto simp: dict_get_def)

subsection \<open>The filter\<close>

lemma filtered_response_content:
  "sublist (py_str content) (filtered_response context content)"
  unfolding filtered_response_def
  by (metis sublist_appendI append.assoc)

lemma filtered_response_context:
  "sublist (take 200 context) (filtered_response context content)"
  unfolding filtered_response_def
  by (rule sublist_appendI)

lemma apply_telos_filter_result:
  assumes "method request = ''tools/call''"
    and "dict_get (params request) ''name'' JNull = JString ''apply_telos_filter''"
    and "dict_get (params request) ''arguments'' (JObject []) = JObject arguments"
    and "load_telos_context w = (t, Inr context)"
    and "\<not> str_raises (max_str_digits w) (dict_get arguments ''content'' (JString ''''))"
  shows "mcp_endpoint w request =
           (t, Inr (Some \<lparr>result = Some (JObject [(''filtered_content'',
                    JString (filtered_response context
                      (dict_get arguments ''content'' (JString ''''))))]),
                  error = None\<rparr>))"
  using assms by (simp add: mcp_endpoint_def)

lemma str_of_string_returns: "\<not> str_raises limit (JString s)"
  by (simp add: str_raises_def)

text \<open>
  An exception of the loader leaves the tool, and so does the \<open>AttributeError\<close> of
  \<open>arguments.get\<close> where \<open>arguments\<close> is \<open>null\<close>.
\<close>

lemma apply_telos_filter_arguments_null:
  "snd (mcp_endpoint world_local_file
     \<lparr>method = ''tools/call'',
      params = [(''name'', JString ''apply_telos_filter''), (''arguments'', JNull)]\<rparr>)
   = Inl AttributeError"
  by (simp add: mcp_endpoint_def dict_get_def load_defs worlds)

text \<open>
  Claim C6. When the tool \<open>apply_telos_filter\<close> is called with a string under
  \<open>arguments.content\<close>, or with none, which stands for the empty string, and the loader
  returns a context, the answer's \<open>filtered_content\<close> is the template filled in; the
  string is in it as it was given, and so are the first 200 characters of the context.
\<close>

theorem apply_telos_filter_embeds_content:
  assumes "method request = ''tools/call''"
    and "dict_get (params request) ''name'' JNull = JString ''apply_telos_filter''"
    and "dict_get (params request) ''arguments'' (JObject []) = JObject arguments"
    and "dict_get arguments ''content'' (JString '''') = JString content"
    and "load_telos_context w = (t, Inr context)"
  shows "mcp_endpoint w request =
           (t, Inr (Some \<lparr>result = Some (JObject [(''filtered_content'',
                    JString (filtered_response context (JString content)))]),
                  error = None\<rparr>))
         \<and> sublist content (filtered_response context (JString content))
         \<and> sublist (take 200 context) (filtered_response context (JString content))"
proof -
  have "\<not> str_raises (max_str_digits w) (dict_get arguments ''content'' (JString ''''))"
    using assms(4) by (simp add: str_of_string_returns)
  from apply_telos_filter_result [OF assms(1,2,3,5) this] assms(4)
    filtered_response_content [of "JString content" "context"]
    filtered_response_context [of "context" "JString content"]
  show ?thesis
    by (simp add: py_str_def)
qed

text \<open>A call with a string, and a call with no \<open>arguments\<close> at all.\<close>

theorem apply_telos_filter_embeds_content_witness:
  "mcp_endpoint world_local_file
     \<lparr>method = ''tools/call'',
      params = [(''name'', JString ''apply_telos_filter''),
                (''arguments'', JObject [(''content'', JString ''Buy a boat?'')])]\<rparr> =
   ([OpenRead ''/app/context/telos.md''],
    Inr (Some \<lparr>result = Some (JObject [(''filtered_content'',
           JString ''\<newline>            TELOS-Filtered Analysis:\<newline>            \<newline>            Personal Context Applied: # Mission\<newline>Ship it....\<newline>            \<newline>            Content Analysis: Buy a boat?\<newline>            \<newline>            Alignment Assessment: [This would contain AI-generated alignment analysis]\<newline>            '')]),
         error = None\<rparr>))
   \<and> mcp_endpoint world_local_file
     \<lparr>method = ''tools/call'', params = [(''name'', JString ''apply_telos_filter'')]\<rparr> =
   ([OpenRead ''/app/context/telos.md''],
    Inr (Some \<lparr>result = Some (JObject [(''filtered_content'',
           JString ''\<newline>            TELOS-Filtered Analysis:\<newline>            \<newline>            Personal Context Applied: # Mission\<newline>Ship it....\<newline>            \<newline>            Content Analysis: \<newline>            \<newline>            Alignment Assessment: [This would contain AI-generated alignment analysis]\<newline>            '')]),
         error = None\<rparr>))"
  using
    apply_telos_filter_embeds_content [of
      "\<lparr>method = ''tools/call'',
        params = [(''name'', JString ''apply_telos_filter''),
                  (''arguments'', JObject [(''content'', JString ''Buy a boat?'')])]\<rparr>"
      "[(''content'', JString ''Buy a boat?'')]" "''Buy a boat?''" world_local_file
      "[OpenRead ''/app/context/telos.md'']" "''# Mission\<newline>Ship it.''"]
    apply_telos_filter_embeds_content [of
      "\<lparr>method = ''tools/call'', params = [(''name'', JString ''apply_telos_filter'')]\<rparr>"
      "[]" "''''" world_local_file
      "[OpenRead ''/app/context/telos.md'']" "''# Mission\<newline>Ship it.''"]
  by (simp add: dict_get_def load_defs worlds filtered_response_def py_str_def)

text \<open>What \<open>str\<close> gives for values that are not strings.\<close>

lemma py_str_examples:
  "py_str (JInt (- 42)) = ''-42''"
  "py_str JNull = ''None''"
  "py_str (JBool True) = ''True''"
  "py_str (JArray [JInt 42, JString ''a'']) =
     [CHR ''['', CHR ''4'', CHR ''2'', CHR '','', CHR '' '', CHR 0x27, CHR ''a'', CHR 0x27, CHR '']'']"
  by code_simp+

lemma str_of_minus_42_returns: "\<not> str_raises 4300 (JInt (- 42))"
  by code_simp

text \<open>
  Claim C10, as amended. The claim says that the tool \<open>apply_telos_filter\<close> never fails,
  whatever value stands under \<open>arguments.content\<close>. What holds is this: when the loader
  returns a context and \<open>arguments\<close> is a \<open>dict\<close> (or is absent), the call returns a result
  with \<open>filtered_content\<close> for every value under \<open>arguments.content\<close>, a string or not,
  whose integers have no more digits than the limit of the conversion to \<open>str\<close>: the value
  is not checked, and what stands in the template is its \<open>str\<close>.
\<close>

theorem apply_telos_filter_any_content:
  assumes "method request = ''tools/call''"
    and "dict_get (params request) ''name'' JNull = JString ''apply_telos_filter''"
    and "dict_get (params request) ''arguments'' (JObject []) = JObject arguments"
    and "dict_get arguments ''content'' (JString '''') = content"
    and "load_telos_context w = (t, Inr context)"
    and "\<not> str_raises (max_str_digits w) content"
  shows "mcp_endpoint w request =
           (t, Inr (Some \<lparr>result = Some (JObject [(''filtered_content'',
                    JString (filtered_response context content))]),
                  error = None\<rparr>))
         \<and> sublist (py_str content) (filtered_response context content)"
proof -
  have "\<not> str_raises (max_str_digits w) (dict_get arguments ''content'' (JString ''''))"
    using assms(4,6) by simp
  from apply_telos_filter_result [OF assms(1,2,3,5) this] assms(4)
    filtered_response_content [of "content" "context"]
  show ?thesis
    by simp
qed

theorem apply_telos_filter_any_content_witness:
  "mcp_endpoint world_local_file
     \<lparr>method = ''tools/call'',
      params = [(''name'', JString ''apply_telos_filter''),
                (''arguments'', JObject [(''content'', JInt (- 42))])]\<rparr> =
   ([OpenRead ''/app/context/telos.md''],
    Inr (Some \<lparr>result = Some (JObject [(''filtered_content'',
           JString ''\<newline>            TELOS-Filtered Analysis:\<newline>            \<newline>            Personal Context Applied: # Mission\<newline>Ship it....\<newline>            \<newline>            Content Analysis: -42\<newline>            \<newline>            Alignment Assessment: [This would contain AI-generated alignment analysis]\<newline>            '')]),
         error = None\<rparr>))"
  using
    apply_telos_filter_any_content [of
      "\<lparr>method = ''tools/call'',
        params = [(''name'', JString ''apply_telos_filter''),
                  (''arguments'', JObject [(''content'', JInt (- 42))])]\<rparr>"
      "[(''content'', JInt (- 42))]" "JInt (- 42)" world_local_file
      "[OpenRead ''/app/context/telos.md'']" "''# Mission\<newline>Ship it.''"]
    str_of_minus_42_returns
  by (simp add: dict_get_def load_defs worlds filtered_response_def py_str_examples)

text \<open>
  Claim C10 as stated fails where the loader raises: with a local file that may not be
  read, the tool raises \<open>PermissionError\<close> before it looks at the content.
\<close>

theorem apply_telos_filter_loader_raises:
  "snd (mcp_endpoint world_unreadable_file
     \<lparr>method = ''tools/call'',
      params = [(''name'', JString ''apply_telos_filter''),
                (''arguments'', JObject [(''content'', JInt 7)])]\<rparr>)
   = Inl PermissionError"
  by (simp add: mcp_endpoint_def dict_get_def load_defs worlds)

end
